theory Spec2Isabelle
  imports Main
begin

section \<open>Data model\<close>

text \<open>
  Modelled from the spec: the class \<open>DType\<close> is imported from the module \<open>_dtype\<close>, which is
  not among the sources. The spec describes it as a pair of a scalar kind and an integer bit
  width. In the code the kind is a Python type object (\<open>bool\<close>, \<open>int\<close>, \<open>float\<close>,
  \<open>complex\<close>); \<open>combine_types\<close> has a final branch for every other kind, so any other type
  object is kept as \<open>KOther\<close> with its name.
\<close>

datatype kind = KBool | KInt | KFloat | KComplex | KOther string

record DType =
  kind :: kind
  bits :: int

text \<open>
  \<open>Backend.__init__\<close> stores the name and nothing else; \<open>__str__\<close> returns it.
\<close>

record Backend =
  name :: string

text \<open>
  The exceptions raised in \<open>_backend.py\<close>. \<open>ValueError\<close> carries the tuple of dtypes passed
  to \<open>combine_types\<close>; \<open>NotImplementedError\<close> carries its argument tuple, which is either
  empty or holds the backend itself; \<open>IndexError\<close> is what indexing an empty tuple and
  popping an empty list raise; \<open>UnpackError\<close> is the \<open>ValueError\<close> of a failed tuple
  unpacking \<open>a, b = ...\<close>.
\<close>

datatype error =
    IndexError
  | ValueError "DType list"
  | NotImplementedError "Backend list"
  | UnpackError

section \<open>Type promotion\<close>

text \<open>
  The property \<open>precision\<close> reads the process-wide setting through \<open>get_precision\<close>, which
  lives in the package initialiser and is not among the sources; the setting is a parameter
  here.
\<close>

definition float_type :: "int \<Rightarrow> DType" where
  "float_type precision = \<lparr>kind = KFloat, bits = precision\<rparr>"

definition complex_type :: "int \<Rightarrow> DType" where
  "complex_type precision = \<lparr>kind = KComplex, bits = max 64 precision\<rparr>"

text \<open>
  Python's \<open>max(dtypes, key=lambda dt: dt.bits)\<close>: the running maximum is replaced only by
  a strictly greater key, so the first of several maximal elements is returned; an empty
  argument raises \<open>ValueError\<close>.
\<close>

fun max_key_bits_from :: "DType \<Rightarrow> DType list \<Rightarrow> DType" where
  "max_key_bits_from m [] = m"
| "max_key_bits_from m (dt # dts) =
     max_key_bits_from (if bits m < bits dt then dt else m) dts"

fun max_key_bits :: "DType list \<Rightarrow> error + DType" where
  "max_key_bits [] = Inl (ValueError [])"
| "max_key_bits (dt # dts) = Inr (max_key_bits_from dt dts)"

definition combine_types :: "int \<Rightarrow> DType list \<Rightarrow> error + DType" where
  "combine_types precision dtypes =
     (if list_all (\<lambda>dt. kind dt = KBool) dtypes then
        (case dtypes of [] \<Rightarrow> Inl IndexError | dt # _ \<Rightarrow> Inr dt)
      else if list_all (\<lambda>dt. kind dt \<in> {KBool, KInt}) dtypes then
        max_key_bits dtypes
      else if list_all (\<lambda>dt. kind dt \<in> {KFloat, KInt, KBool}) dtypes then
        Inr (float_type precision)
      else if list_all (\<lambda>dt. kind dt \<in> {KComplex, KFloat, KInt, KBool}) dtypes then
        Inr (complex_type precision)
      else Inl (ValueError dtypes))"

section \<open>Scoped backend selection\<close>

text \<open>
  The list \<open>_DEFAULT\<close> of the package initialiser is the process-wide stack; it is passed
  and returned explicitly, its top being the last element. \<open>__enter__\<close> appends \<open>self\<close>;
  \<open>__exit__\<close> ignores its three exception arguments and calls \<open>pop(-1)\<close>, which raises
  \<open>IndexError\<close> on an empty list.
\<close>

definition Backend_init :: "string \<Rightarrow> error + Backend" where
  "Backend_init n = Inr \<lparr>name = n\<rparr>"

definition Backend_enter :: "Backend \<Rightarrow> Backend list \<Rightarrow> Backend list" where
  "Backend_enter self DEFAULT = DEFAULT @ [self]"

definition Backend_exit ::
  "Backend \<Rightarrow> 'x \<Rightarrow> 'y \<Rightarrow> 'z \<Rightarrow> Backend list \<Rightarrow> error + Backend list" where
  "Backend_exit self exc_type exc_val exc_tb DEFAULT =
     (if DEFAULT = [] then Inl IndexError else Inr (butlast DEFAULT))"

text \<open>
  The statement \<open>with b: body\<close>: \<open>__enter__\<close> runs, then the body, then \<open>__exit__\<close> with the
  exception of the body (or nothing). \<open>__exit__\<close> returns \<open>None\<close>, so an exception of the body
  is raised again after it; an exception of \<open>__exit__\<close> itself replaces the outcome.
\<close>

definition with_backend ::
  "Backend \<Rightarrow> (Backend list \<Rightarrow> (error + 'a) \<times> Backend list) \<Rightarrow>
     Backend list \<Rightarrow> (error + 'a) \<times> Backend list" where
  "with_backend b body DEFAULT =
     (case body (Backend_enter b DEFAULT) of
        (r, st) \<Rightarrow>
          (let exc = (case r of Inl e \<Rightarrow> Some e | Inr _ \<Rightarrow> None) in
           case Backend_exit b exc exc exc st of
             Inl e \<Rightarrow> (Inl e, st)
           | Inr st' \<Rightarrow> (r, st')))"

fun nested_scopes ::
  "Backend list \<Rightarrow> (Backend list \<Rightarrow> (error + 'a) \<times> Backend list) \<Rightarrow>
     Backend list \<Rightarrow> (error + 'a) \<times> Backend list" where
  "nested_scopes [] body = body"
| "nested_scopes (b # bs) body = with_backend b (nested_scopes bs body)"

section \<open>Automatic casting and the elementwise binary operations\<close>

text \<open>
  \<open>dtype\<close> and \<open>cast\<close> are abstract in \<open>Backend\<close> and supplied by the concrete backend,
  as are the operators \<open>+ - * / ** %\<close> of its native tensors. They are the fields of
  an engine; each may raise.
\<close>

record 't engine =
  dtype :: "'t \<Rightarrow> error + DType"
  cast :: "'t \<Rightarrow> DType \<Rightarrow> error + 't"
  py_add :: "'t \<Rightarrow> 't \<Rightarrow> error + 't"
  py_sub :: "'t \<Rightarrow> 't \<Rightarrow> error + 't"
  py_mul :: "'t \<Rightarrow> 't \<Rightarrow> error + 't"
  py_truediv :: "'t \<Rightarrow> 't \<Rightarrow> error + 't"
  py_pow :: "'t \<Rightarrow> 't \<Rightarrow> error + 't"
  py_mod :: "'t \<Rightarrow> 't \<Rightarrow> error + 't"

text \<open>A list comprehension whose element expression may raise: left to right, first error wins.\<close>

fun comprehension :: "('a \<Rightarrow> error + 'b) \<Rightarrow> 'a list \<Rightarrow> error + 'b list" where
  "comprehension f [] = Inr []"
| "comprehension f (x # xs) =
     (case f x of
        Inl e \<Rightarrow> Inl e
      | Inr y \<Rightarrow> (case comprehension f xs of Inl e \<Rightarrow> Inl e | Inr ys \<Rightarrow> Inr (y # ys)))"

definition auto_cast :: "'t engine \<Rightarrow> int \<Rightarrow> 't list \<Rightarrow> error + 't list" where
  "auto_cast self precision tensors =
     (case comprehension (dtype self) tensors of
        Inl e \<Rightarrow> Inl e
      | Inr dtypes \<Rightarrow>
          (case combine_types precision dtypes of
             Inl e \<Rightarrow> Inl e
           | Inr result_type \<Rightarrow> comprehension (\<lambda>t. cast self t result_type) tensors))"

text \<open>The unpacking \<open>a, b = ...\<close> of a list that does not have two elements raises.\<close>

fun unpack2 :: "'t list \<Rightarrow> error + 't \<times> 't" where
  "unpack2 [a, b] = Inr (a, b)"
| "unpack2 _ = Inl UnpackError"

definition Backend_add :: "'t engine \<Rightarrow> int \<Rightarrow> 't \<Rightarrow> 't \<Rightarrow> error + 't" where
  "Backend_add self precision a b =
     (case auto_cast self precision [a, b] of
        Inl e \<Rightarrow> Inl e
      | Inr ts \<Rightarrow> (case unpack2 ts of Inl e \<Rightarrow> Inl e | Inr (a', b') \<Rightarrow> py_add self a' b'))"

definition Backend_sub :: "'t engine \<Rightarrow> int \<Rightarrow> 't \<Rightarrow> 't \<Rightarrow> error + 't" where
  "Backend_sub self precision a b =
     (case auto_cast self precision [a, b] of
        Inl e \<Rightarrow> Inl e
      | Inr ts \<Rightarrow> (case unpack2 ts of Inl e \<Rightarrow> Inl e | Inr (a', b') \<Rightarrow> py_sub self a' b'))"

definition Backend_mul :: "'t engine \<Rightarrow> int \<Rightarrow> 't \<Rightarrow> 't \<Rightarrow> error + 't" where
  "Backend_mul self precision a b =
     (case auto_cast self precision [a, b] of
        Inl e \<Rightarrow> Inl e
      | Inr ts \<Rightarrow> (case unpack2 ts of Inl e \<Rightarrow> Inl e | Inr (a', b') \<Rightarrow> py_mul self a' b'))"

definition Backend_div :: "'t engine \<Rightarrow> int \<Rightarrow> 't \<Rightarrow> 't \<Rightarrow> error + 't" where
  "Backend_div self precision numerator denominator =
     (case auto_cast self precision [numerator, denominator] of
        Inl e \<Rightarrow> Inl e
      | Inr ts \<Rightarrow> (case unpack2 ts of Inl e \<Rightarrow> Inl e | Inr (n', d') \<Rightarrow> py_truediv self n' d'))"

definition Backend_pow :: "'t engine \<Rightarrow> int \<Rightarrow> 't \<Rightarrow> 't \<Rightarrow> error + 't" where
  "Backend_pow self precision base exp =
     (case auto_cast self precision [base, exp] of
        Inl e \<Rightarrow> Inl e
      | Inr ts \<Rightarrow> (case unpack2 ts of Inl e \<Rightarrow> Inl e | Inr (b', e') \<Rightarrow> py_pow self b' e'))"

definition Backend_mod :: "'t engine \<Rightarrow> int \<Rightarrow> 't \<Rightarrow> 't \<Rightarrow> error + 't" where
  "Backend_mod self precision dividend divisor =
     (case auto_cast self precision [dividend, divisor] of
        Inl e \<Rightarrow> Inl e
      | Inr ts \<Rightarrow> (case unpack2 ts of Inl e \<Rightarrow> Inl e | Inr (n', d') \<Rightarrow> py_mod self n' d'))"

text \<open>
  A small engine for concrete evaluation: a tensor is a dtype tag and an integer payload,
  \<open>cast\<close> replaces the tag, and an operator keeps the tag of its left operand.
\<close>

definition tagged_engine :: "(DType \<times> int) engine" where
  "tagged_engine =
     \<lparr>dtype = (\<lambda>t. Inr (fst t)),
      cast = (\<lambda>t d. Inr (d, snd t)),
      py_add = (\<lambda>x y. Inr (fst x, snd x + snd y)),
      py_sub = (\<lambda>x y. Inr (fst x, snd x - snd y)),
      py_mul = (\<lambda>x y. Inr (fst x, snd x * snd y)),
      py_truediv = (\<lambda>x y. Inr (fst x, snd x div snd y)),
      py_pow = (\<lambda>x y. Inr (fst x, snd x ^ nat (snd y))),
      py_mod = (\<lambda>x y. Inr (fst x, snd x mod snd y))\<rparr>"

section \<open>Abstract operations\<close>

text \<open>
  Every abstract method of \<open>Backend\<close> has a body that only raises. The table gives each
  method's name and whether the body is \<open>raise NotImplementedError(self)\<close> (\<open>True\<close>) or
  \<open>raise NotImplementedError()\<close> (\<open>False\<close>), in the order of the source.
\<close>

definition abstract_methods :: "(string \<times> bool) list" where
  "abstract_methods =
    [(''is_tensor'', False), (''as_tensor'', False), (''is_available'', False),
     (''numpy'', False), (''copy'', False), (''transpose'', False), (''equal'', False),
     (''random_uniform'', True), (''random_normal'', True), (''stack'', True),
     (''concat'', True), (''pad'', True), (''reshape'', True), (''sum'', True),
     (''prod'', True), (''divide_no_nan'', True), (''where'', True), (''nonzero'', True),
     (''mean'', True), (''py_func'', True), (''range'', True), (''zeros'', True),
     (''zeros_like'', True), (''ones'', True), (''ones_like'', True), (''meshgrid'', True),
     (''dot'', True), (''matmul'', True), (''einsum'', True), (''while_loop'', True),
     (''abs'', True), (''sign'', True), (''round'', True), (''ceil'', True),
     (''floor'', True), (''max'', True), (''min'', True), (''maximum'', True),
     (''minimum'', True), (''clip'', True), (''with_custom_gradient'', True),
     (''sqrt'', True), (''exp'', True), (''conv'', True), (''expand_dims'', True),
     (''shape'', True), (''staticshape'', True), (''to_float'', True), (''to_int'', True),
     (''to_complex'', True), (''gather'', True), (''gather_nd'', True), (''std'', True),
     (''boolean_mask'', True), (''isfinite'', True), (''scatter'', True), (''any'', True),
     (''all'', True), (''fft'', True), (''ifft'', True), (''imag'', True), (''real'', True),
     (''cast'', True), (''sin'', True), (''cos'', True), (''dtype'', True), (''tile'', True),
     (''sparse_tensor'', True), (''coordinates'', True), (''conjugate_gradient'', True)]"

text \<open>
  Calling the method named \<open>m\<close> on a backend that does not override it: \<open>None\<close> when \<open>m\<close>
  is not an abstract method, otherwise the outcome of the call, which is the raise.
\<close>

definition call_abstract :: "Backend \<Rightarrow> string \<Rightarrow> (error + unit) option" where
  "call_abstract self m =
     (case map_of abstract_methods m of
        None \<Rightarrow> None
      | Some with_self \<Rightarrow> Some (Inl (NotImplementedError (if with_self then [self] else []))))"

text \<open>
  What an exception shows of its arguments: the string form of each, which for a backend
  is its name (\<open>__str__\<close>).
\<close>

fun carried_names :: "error \<Rightarrow> string list" where
  "carried_names (NotImplementedError args) = map name args"
| "carried_names _ = []"

section \<open>Properties of the scoped stack\<close>

text \<open>
  C2. For every backend and every state of the stack, \<open>__enter__\<close> appends exactly that
  backend on top and raises the depth by one; \<open>__exit__\<close>, whatever its exception arguments,
  removes exactly the top entry of a non-empty stack; hence \<open>__enter__\<close> followed by
  \<open>__exit__\<close> gives back the stack as it was, with its depth and contents.
\<close>

theorem enter_exit_restores_stack:
  "Backend_enter b st = st @ [b] \<and>
   last (Backend_enter b st) = b \<and>
   length (Backend_enter b st) = Suc (length st) \<and>
   Backend_exit c exc_type exc_val exc_tb (st @ [x]) = Inr st \<and>
   Backend_exit b exc_type exc_val exc_tb (Backend_enter b st) = Inr st"
  by (simp add: Backend_enter_def Backend_exit_def)

text \<open>
  A scope whose body leaves the stack as it found it, returning or raising, leaves the
  stack as it was before entry, and so do scopes nested to any depth around such a body.
\<close>

lemma with_backend_balanced:
  assumes "body (st @ [b]) = (r, st @ [b])"
  shows "with_backend b body st = (r, st)"
  using assms by (simp add: with_backend_def Backend_enter_def Backend_exit_def)

lemma nested_scopes_restore:
  assumes "\<And>s. snd (body s) = s"
  shows "nested_scopes bs body st = (fst (body (st @ bs)), st)"
proof (induction bs arbitrary: st)
  case Nil
  show ?case using assms [of st] by (simp add: prod_eq_iff)
next
  case (Cons b bs)
  have "nested_scopes bs body (st @ [b]) = (fst (body (st @ b # bs)), st @ [b])"
    using Cons.IH [of "st @ [b]"] by simp
  then show ?case by (simp add: with_backend_balanced)
qed

section \<open>Properties of type promotion\<close>

text \<open>
  C10. \<open>combine_types\<close> without arguments takes the all-boolean branch and fails on
  indexing the empty tuple; \<open>auto_cast\<close> without tensors therefore fails in the same way,
  for every backend.
\<close>

theorem combine_types_no_arguments_fails:
  "combine_types p [] = Inl IndexError \<and> auto_cast e p [] = Inl IndexError"
  by (simp add: combine_types_def auto_cast_def)

text \<open>
  The integer branch returns an operand: the first one of maximal width.
\<close>

lemma max_key_bits_from_mem: "max_key_bits_from m dts \<in> set (m # dts)"
  by (induction dts arbitrary: m) auto

lemma max_key_bits_from_ge:
  "d \<in> set (m # dts) \<Longrightarrow> bits d \<le> bits (max_key_bits_from m dts)"
proof (induction dts arbitrary: m d)
  case Nil
  then show ?case by simp
next
  case (Cons x xs)
  let ?m' = "if bits m < bits x then x else m"
  have top: "bits ?m' \<le> bits (max_key_bits_from ?m' xs)"
    using Cons.IH [of ?m' ?m'] by simp
  from Cons.prems consider "d = m" | "d = x" | "d \<in> set xs" by auto
  then show ?case
  proof cases
    case 1 then show ?thesis using top by (simp split: if_splits)
  next
    case 2 then show ?thesis using top by (simp split: if_splits)
  next
    case 3 then show ?thesis using Cons.IH [of d ?m'] by simp
  qed
qed

lemma max_key_bits_from_Max:
  "bits (max_key_bits_from m dts) = Max (bits ` set (m # dts))"
proof (rule sym, rule Max_eqI)
  show "finite (bits ` set (m # dts))" by simp
  show "\<And>y. y \<in> bits ` set (m # dts) \<Longrightarrow> y \<le> bits (max_key_bits_from m dts)"
    using max_key_bits_from_ge by blast
  show "bits (max_key_bits_from m dts) \<in> bits ` set (m # dts)"
    using max_key_bits_from_mem by blast
qed

text \<open>
  When every operand is boolean or integer and one is an integer, the result is an operand
  of the list, its width is the largest width in the list, and its kind is boolean or
  integer. It is an integer when every boolean operand is narrower than some operand.
  The width of the result does not depend on the order of the operands.
\<close>

lemma combine_types_int_branch:
  assumes "\<forall>dt\<in>set dts. kind dt \<in> {KBool, KInt}"
    and "\<exists>dt\<in>set dts. kind dt = KInt"
  shows "\<exists>r. combine_types p dts = Inr r \<and> r \<in> set dts \<and>
             bits r = Max (bits ` set dts) \<and> kind r \<in> {KBool, KInt}"
proof -
  from assms(2) obtain i where i: "i \<in> set dts" "kind i = KInt" by blast
  then obtain d ds where dts: "dts = d # ds" by (cases dts) auto
  have nb: "\<not> list_all (\<lambda>dt. kind dt = KBool) dts"
    using i by (force simp: list_all_iff)
  have ib: "list_all (\<lambda>dt. kind dt \<in> {KBool, KInt}) dts"
    using assms(1) by (simp add: list_all_iff)
  have "combine_types p dts = max_key_bits dts"
    using nb ib by (simp add: combine_types_def)
  then have eq: "combine_types p dts = Inr (max_key_bits_from d ds)"
    by (simp add: dts)
  have mem: "max_key_bits_from d ds \<in> set dts"
    using max_key_bits_from_mem [of d ds] by (simp add: dts)
  show ?thesis
    using eq mem max_key_bits_from_Max [of d ds] assms(1) by (auto simp: dts)
qed

lemma combine_types_int_branch_kind:
  assumes "\<forall>dt\<in>set dts. kind dt \<in> {KBool, KInt}"
    and "\<exists>dt\<in>set dts. kind dt = KInt"
    and "\<forall>dt\<in>set dts. kind dt = KBool \<longrightarrow> (\<exists>i\<in>set dts. bits dt < bits i)"
  shows "\<exists>r. combine_types p dts = Inr r \<and> kind r = KInt \<and> bits r = Max (bits ` set dts)"
proof -
  from combine_types_int_branch [OF assms(1,2), of p]
  obtain r where r: "combine_types p dts = Inr r" "r \<in> set dts"
    "bits r = Max (bits ` set dts)" "kind r \<in> {KBool, KInt}" by blast
  have "kind r \<noteq> KBool"
  proof
    assume "kind r = KBool"
    with assms(3) r(2) obtain i where i: "i \<in> set dts" "bits r < bits i" by blast
    have "bits i \<le> Max (bits ` set dts)" using i(1) by simp
    with i(2) r(3) show False by simp
  qed
  with r show ?thesis by auto
qed

lemma combine_types_int_branch_bits_order:
  assumes "set xs = set ys"
    and "\<forall>dt\<in>set xs. kind dt \<in> {KBool, KInt}"
    and "\<exists>dt\<in>set xs. kind dt = KInt"
  shows "\<exists>r s. combine_types p xs = Inr r \<and> combine_types p ys = Inr s \<and> bits r = bits s"
proof -
  from combine_types_int_branch [of xs p] assms(2,3)
  obtain r where r: "combine_types p xs = Inr r" "bits r = Max (bits ` set xs)" by blast
  from combine_types_int_branch [of ys p] assms
  obtain s where s: "combine_types p ys = Inr s" "bits s = Max (bits ` set ys)" by auto
  show ?thesis using r s assms(1) by simp
qed

text \<open>
  With a float or complex operand the result depends on the set of operands only, so
  neither their order nor their repetition changes it.
\<close>

lemma combine_types_real_branch:
  assumes "\<forall>dt\<in>set dts. kind dt \<in> {KBool, KInt, KFloat, KComplex}"
    and "\<exists>dt\<in>set dts. kind dt \<in> {KFloat, KComplex}"
  shows "combine_types p dts =
           Inr (if \<exists>dt\<in>set dts. kind dt = KComplex then complex_type p else float_type p)"
proof -
  from assms(2) obtain f where f: "f \<in> set dts" "kind f \<in> {KFloat, KComplex}" by blast
  have nb: "\<not> list_all (\<lambda>dt. kind dt = KBool) dts"
    using f by (force simp: list_all_iff)
  have ni: "\<not> list_all (\<lambda>dt. kind dt \<in> {KBool, KInt}) dts"
    using f by (force simp: list_all_iff)
  have c: "list_all (\<lambda>dt. kind dt \<in> {KComplex, KFloat, KInt, KBool}) dts"
    using assms(1) by (force simp: list_all_iff)
  show ?thesis
  proof (cases "\<exists>dt\<in>set dts. kind dt = KComplex")
    case True
    then have "\<not> list_all (\<lambda>dt. kind dt \<in> {KFloat, KInt, KBool}) dts"
      by (force simp: list_all_iff)
    with nb ni c True show ?thesis by (simp add: combine_types_def)
  next
    case False
    with assms(1) have "list_all (\<lambda>dt. kind dt \<in> {KFloat, KInt, KBool}) dts"
      by (force simp: list_all_iff)
    with nb ni False show ?thesis by (simp add: combine_types_def)
  qed
qed

lemma combine_types_real_branch_order:
  assumes "set xs = set ys"
    and "\<forall>dt\<in>set xs. kind dt \<in> {KBool, KInt, KFloat, KComplex}"
    and "\<exists>dt\<in>set xs. kind dt \<in> {KFloat, KComplex}"
  shows "combine_types p xs = combine_types p ys"
  using combine_types_real_branch [of xs p] combine_types_real_branch [of ys p] assms
  by simp

text \<open>
  C3. A boolean and an integer of the same width, the boolean first: every operand is
  boolean or integer and one is an integer, yet the result is the boolean type, because the
  maximum by width keeps the first of two equally wide operands.
\<close>

theorem combine_types_bool_int_tie:
  "combine_types p [\<lparr>kind = KBool, bits = 8\<rparr>, \<lparr>kind = KInt, bits = 8\<rparr>] =
     Inr \<lparr>kind = KBool, bits = 8\<rparr>"
  by (simp add: combine_types_def)

text \<open>
  C1. The same two operands in the two orders give different results: the boolean type
  when the boolean comes first, the integer type when the integer does.
\<close>

theorem combine_types_order_dependent:
  "combine_types p [\<lparr>kind = KBool, bits = 8\<rparr>, \<lparr>kind = KInt, bits = 8\<rparr>] \<noteq>
   combine_types p [\<lparr>kind = KInt, bits = 8\<rparr>, \<lparr>kind = KBool, bits = 8\<rparr>]"
  by (simp add: combine_types_def)

text \<open>
  C4. When every operand is boolean, integer or float and at least one is float, the
  result is the float type of the precision setting, whatever the widths of the operands.
\<close>

theorem combine_types_float_operand:
  assumes "\<forall>dt\<in>set dts. kind dt \<in> {KBool, KInt, KFloat}"
    and "\<exists>dt\<in>set dts. kind dt = KFloat"
  shows "combine_types p dts = Inr \<lparr>kind = KFloat, bits = p\<rparr>"
proof -
  from assms(2) obtain f where f: "f \<in> set dts" "kind f = KFloat" by blast
  have nb: "\<not> list_all (\<lambda>dt. kind dt = KBool) dts"
    using f by (force simp: list_all_iff)
  have ni: "\<not> list_all (\<lambda>dt. kind dt \<in> {KBool, KInt}) dts"
    using f by (force simp: list_all_iff)
  have r: "list_all (\<lambda>dt. kind dt \<in> {KFloat, KInt, KBool}) dts"
    using assms(1) by (force simp: list_all_iff)
  show ?thesis using nb ni r by (simp add: combine_types_def float_type_def)
qed

theorem combine_types_float_operand_witness:
  "kind ` set [\<lparr>kind = KFloat, bits = 64\<rparr>, \<lparr>kind = KFloat, bits = 64\<rparr>]
      \<subseteq> {KBool, KInt, KFloat} \<and>
   (\<exists>dt\<in>set [\<lparr>kind = KFloat, bits = 64\<rparr>, \<lparr>kind = KFloat, bits = 64\<rparr>].
      kind dt = KFloat) \<and>
   combine_types 32 [\<lparr>kind = KFloat, bits = 64\<rparr>, \<lparr>kind = KFloat, bits = 64\<rparr>] =
     Inr \<lparr>kind = KFloat, bits = 32\<rparr>"
  using combine_types_float_operand
    [of "[\<lparr>kind = KFloat, bits = 64\<rparr>, \<lparr>kind = KFloat, bits = 64\<rparr>]" 32]
  by simp

text \<open>
  C5. When every operand is boolean, integer, float or complex and at least one is
  complex, the result is the complex type whose width is the larger of 64 and the
  precision setting.
\<close>

theorem combine_types_complex_operand:
  assumes "\<forall>dt\<in>set dts. kind dt \<in> {KBool, KInt, KFloat, KComplex}"
    and "\<exists>dt\<in>set dts. kind dt = KComplex"
  shows "combine_types p dts = Inr \<lparr>kind = KComplex, bits = max 64 p\<rparr>"
proof -
  from assms(2) obtain c where c: "c \<in> set dts" "kind c = KComplex" by blast
  have nb: "\<not> list_all (\<lambda>dt. kind dt = KBool) dts"
    using c by (force simp: list_all_iff)
  have ni: "\<not> list_all (\<lambda>dt. kind dt \<in> {KBool, KInt}) dts"
    using c by (force simp: list_all_iff)
  have nr: "\<not> list_all (\<lambda>dt. kind dt \<in> {KFloat, KInt, KBool}) dts"
    using c by (force simp: list_all_iff)
  have r: "list_all (\<lambda>dt. kind dt \<in> {KComplex, KFloat, KInt, KBool}) dts"
    using assms(1) by (force simp: list_all_iff)
  show ?thesis using nb ni nr r by (simp add: combine_types_def complex_type_def)
qed

theorem combine_types_complex_operand_witness:
  "kind ` set [\<lparr>kind = KInt, bits = 32\<rparr>, \<lparr>kind = KComplex, bits = 128\<rparr>]
      \<subseteq> {KBool, KInt, KFloat, KComplex} \<and>
   (\<exists>dt\<in>set [\<lparr>kind = KInt, bits = 32\<rparr>, \<lparr>kind = KComplex, bits = 128\<rparr>].
      kind dt = KComplex) \<and>
   combine_types 32 [\<lparr>kind = KInt, bits = 32\<rparr>, \<lparr>kind = KComplex, bits = 128\<rparr>] =
     Inr \<lparr>kind = KComplex, bits = 64\<rparr>"
  using combine_types_complex_operand
    [of "[\<lparr>kind = KInt, bits = 32\<rparr>, \<lparr>kind = KComplex, bits = 128\<rparr>]" 32]
  by simp

text \<open>
  C6. When some operand has a kind other than boolean, integer, float and complex, no
  branch applies and \<open>combine_types\<close> raises, carrying its arguments; it returns no type.
\<close>

theorem combine_types_unsupported_kind:
  assumes "\<exists>dt\<in>set dts. kind dt \<notin> {KBool, KInt, KFloat, KComplex}"
  shows "combine_types p dts = Inl (ValueError dts)"
proof -
  from assms obtain x where x: "x \<in> set dts" "kind x \<notin> {KBool, KInt, KFloat, KComplex}"
    by blast
  have "\<not> list_all (\<lambda>dt. kind dt = KBool) dts"
       "\<not> list_all (\<lambda>dt. kind dt \<in> {KBool, KInt}) dts"
       "\<not> list_all (\<lambda>dt. kind dt \<in> {KFloat, KInt, KBool}) dts"
       "\<not> list_all (\<lambda>dt. kind dt \<in> {KComplex, KFloat, KInt, KBool}) dts"
    using x by (force simp: list_all_iff)+
  then show ?thesis by (simp add: combine_types_def)
qed

theorem combine_types_unsupported_kind_witness:
  "(\<exists>dt\<in>set [\<lparr>kind = KFloat, bits = 32\<rparr>, \<lparr>kind = KOther ''str'', bits = 8\<rparr>].
      kind dt \<notin> {KBool, KInt, KFloat, KComplex}) \<and>
   combine_types 32 [\<lparr>kind = KFloat, bits = 32\<rparr>, \<lparr>kind = KOther ''str'', bits = 8\<rparr>] =
     Inl (ValueError [\<lparr>kind = KFloat, bits = 32\<rparr>, \<lparr>kind = KOther ''str'', bits = 8\<rparr>])"
  using combine_types_unsupported_kind
    [of "[\<lparr>kind = KFloat, bits = 32\<rparr>, \<lparr>kind = KOther ''str'', bits = 8\<rparr>]" 32]
  by simp

section \<open>Properties of the elementwise binary operations\<close>

lemma auto_cast_pair:
  assumes "dtype e a = Inr da" and "dtype e b = Inr db"
    and "combine_types p [da, db] = Inr t"
    and "cast e a t = Inr a'" and "cast e b t = Inr b'"
  shows "auto_cast e p [a, b] = Inr [a', b']"
  using assms by (simp add: auto_cast_def)

text \<open>
  C7. Each of \<open>add\<close>, \<open>sub\<close>, \<open>mul\<close>, \<open>div\<close>, \<open>pow\<close> and \<open>mod\<close> first casts both
  operands to the one type that \<open>combine_types\<close> gives for their two dtypes, and applies
  the native operator to the two cast operands.
\<close>

theorem binary_ops_apply_auto_cast:
  assumes "dtype e a = Inr da" and "dtype e b = Inr db"
    and "combine_types p [da, db] = Inr t"
    and "cast e a t = Inr a'" and "cast e b t = Inr b'"
  shows "Backend_add e p a b = py_add e a' b' \<and>
         Backend_sub e p a b = py_sub e a' b' \<and>
         Backend_mul e p a b = py_mul e a' b' \<and>
         Backend_div e p a b = py_truediv e a' b' \<and>
         Backend_pow e p a b = py_pow e a' b' \<and>
         Backend_mod e p a b = py_mod e a' b'"
  using auto_cast_pair [OF assms]
  by (simp add: Backend_add_def Backend_sub_def Backend_mul_def Backend_div_def
      Backend_pow_def Backend_mod_def)

theorem binary_ops_apply_auto_cast_witness:
  "dtype tagged_engine (\<lparr>kind = KInt, bits = 32\<rparr>, 7) = Inr \<lparr>kind = KInt, bits = 32\<rparr> \<and>
   dtype tagged_engine (\<lparr>kind = KFloat, bits = 64\<rparr>, 2) = Inr \<lparr>kind = KFloat, bits = 64\<rparr> \<and>
   combine_types 32 [\<lparr>kind = KInt, bits = 32\<rparr>, \<lparr>kind = KFloat, bits = 64\<rparr>] =
     Inr \<lparr>kind = KFloat, bits = 32\<rparr> \<and>
   Backend_add tagged_engine 32 (\<lparr>kind = KInt, bits = 32\<rparr>, 7) (\<lparr>kind = KFloat, bits = 64\<rparr>, 2) =
     Inr (\<lparr>kind = KFloat, bits = 32\<rparr>, 9) \<and>
   Backend_sub tagged_engine 32 (\<lparr>kind = KInt, bits = 32\<rparr>, 7) (\<lparr>kind = KFloat, bits = 64\<rparr>, 2) =
     Inr (\<lparr>kind = KFloat, bits = 32\<rparr>, 5) \<and>
   Backend_mul tagged_engine 32 (\<lparr>kind = KInt, bits = 32\<rparr>, 7) (\<lparr>kind = KFloat, bits = 64\<rparr>, 2) =
     Inr (\<lparr>kind = KFloat, bits = 32\<rparr>, 14) \<and>
   Backend_div tagged_engine 32 (\<lparr>kind = KInt, bits = 32\<rparr>, 7) (\<lparr>kind = KFloat, bits = 64\<rparr>, 2) =
     Inr (\<lparr>kind = KFloat, bits = 32\<rparr>, 3) \<and>
   Backend_pow tagged_engine 32 (\<lparr>kind = KInt, bits = 32\<rparr>, 7) (\<lparr>kind = KFloat, bits = 64\<rparr>, 2) =
     Inr (\<lparr>kind = KFloat, bits = 32\<rparr>, 49) \<and>
   Backend_mod tagged_engine 32 (\<lparr>kind = KInt, bits = 32\<rparr>, 7) (\<lparr>kind = KFloat, bits = 64\<rparr>, 2) =
     Inr (\<lparr>kind = KFloat, bits = 32\<rparr>, 1)"
  using binary_ops_apply_auto_cast
      [of tagged_engine "(\<lparr>kind = KInt, bits = 32\<rparr>, 7)" "\<lparr>kind = KInt, bits = 32\<rparr>"
      "(\<lparr>kind = KFloat, bits = 64\<rparr>, 2)" "\<lparr>kind = KFloat, bits = 64\<rparr>" 32
      "\<lparr>kind = KFloat, bits = 32\<rparr>" "(\<lparr>kind = KFloat, bits = 32\<rparr>, 7)"
      "(\<lparr>kind = KFloat, bits = 32\<rparr>, 2)"]
  by (simp add: tagged_engine_def combine_types_def float_type_def)

text \<open>
  When \<open>auto_cast\<close> fails, for instance because the two dtypes have no common type, every
  one of the six operations fails with the same error and applies no native operator.
\<close>

lemma binary_ops_auto_cast_error:
  assumes "auto_cast e p [a, b] = Inl err"
  shows "Backend_add e p a b = Inl err \<and> Backend_sub e p a b = Inl err \<and>
         Backend_mul e p a b = Inl err \<and> Backend_div e p a b = Inl err \<and>
         Backend_pow e p a b = Inl err \<and> Backend_mod e p a b = Inl err"
  using assms
  by (simp add: Backend_add_def Backend_sub_def Backend_mul_def Backend_div_def
      Backend_pow_def Backend_mod_def)

section \<open>Properties of the abstract operations\<close>

text \<open>
  C8, as the claim states it, at the operation \<open>sum\<close> of a backend named \<open>numpy\<close>: the
  call raises, but the exception does not carry both the operation name and the backend
  name. It carries the backend only.
\<close>

theorem sum_error_lacks_operation_name:
  "\<not> (case call_abstract \<lparr>name = ''numpy''\<rparr> ''sum'' of
        Some (Inl e) \<Rightarrow> ''sum'' \<in> set (carried_names e) \<and> ''numpy'' \<in> set (carried_names e)
      | _ \<Rightarrow> False)"
  by (simp add: call_abstract_def abstract_methods_def)

text \<open>
  C8, amended. Constructing a backend always succeeds and keeps the name. Calling an
  abstract operation that the backend does not implement raises \<open>NotImplementedError\<close> at
  the call; for the operations whose body raises with \<open>self\<close>, among them \<open>sum\<close> and
  \<open>conjugate_gradient\<close>, the exception carries the backend, whose string form is its name,
  and nothing else.
\<close>

theorem unimplemented_operation_raises:
  assumes "map_of abstract_methods m = Some with_self"
  shows "\<exists>b. Backend_init n = Inr b \<and> name b = n \<and>
           (\<exists>args. call_abstract b m = Some (Inl (NotImplementedError args)) \<and>
              (with_self \<longrightarrow> args = [b] \<and> carried_names (NotImplementedError args) = [n]))"
  using assms by (simp add: Backend_init_def call_abstract_def)

theorem unimplemented_operation_raises_witness:
  "map_of abstract_methods ''sum'' = Some True \<and>
   map_of abstract_methods ''conjugate_gradient'' = Some True \<and>
   Backend_init ''numpy'' = Inr \<lparr>name = ''numpy''\<rparr> \<and>
   call_abstract \<lparr>name = ''numpy''\<rparr> ''sum'' = Some (Inl (NotImplementedError [\<lparr>name = ''numpy''\<rparr>])) \<and>
   call_abstract \<lparr>name = ''numpy''\<rparr> ''conjugate_gradient'' =
     Some (Inl (NotImplementedError [\<lparr>name = ''numpy''\<rparr>])) \<and>
   carried_names (NotImplementedError [\<lparr>name = ''numpy''\<rparr>]) = [''numpy'']"
  using unimplemented_operation_raises [of "''sum''" True "''numpy''"]
    unimplemented_operation_raises [of "''conjugate_gradient''" True "''numpy''"]
  by (simp add: abstract_methods_def Backend_init_def)

end
